theory Spec2Isabelle
  imports Complex_Main "HOL-Library.Word" "HOL-Library.Monad_Syntax"
begin

section \<open>Conventions of the embedding\<close>

text \<open>
  The development embeds parts of \<^verbatim>\<open>Common/src/grid_movement_structure.cpp\<close> and
  \<^verbatim>\<open>Common/include/dual_grid_structure.inl\<close>.

  \<^item> A C++ \<^verbatim>\<open>double\<close> is a \<^typ>\<open>real\<close>: rounding, infinities and NaN are outside the model.
  \<^item> \<^verbatim>\<open>unsigned short\<close> and \<^verbatim>\<open>unsigned long\<close> counters that cannot overflow on the paths
    modelled are \<^typ>\<open>nat\<close>; a counter whose wrap-around is reachable is a word.
  \<^item> A C array indexed by a dimension or a corner is a function from \<^typ>\<open>nat\<close>; an array whose
    length matters is a list.
  \<^item> A read of memory that the source never assigned, and an access outside an array, is the
    value \<open>None\<close> of an option type (or a fault of a sum type).
\<close>

type_synonym vec = "nat \<Rightarrow> real"

text \<open>The array holding the given numbers, for writing concrete inputs.\<close>

definition vec_of :: "real list \<Rightarrow> vec" where
  "vec_of xs iDim = (if iDim < length xs then xs ! iDim else 0)"

definition zero_vec :: vec where
  "zero_vec iDim = 0"

section \<open>Points of the dual grid: \<^verbatim>\<open>CPoint::SetVertex\<close>, \<^verbatim>\<open>CPoint::GetVertex\<close>\<close>

text \<open>
  A \<^verbatim>\<open>CPoint\<close> carries the flag \<^verbatim>\<open>Boundary\<close> and the pointer \<^verbatim>\<open>long *vertex\<close> to an array with
  one cell per marker; the pointer is \<^verbatim>\<open>NULL\<close> (here \<open>None\<close>) until the array is allocated.
  A \<^verbatim>\<open>long\<close> is an \<^typ>\<open>int\<close>: the two functions copy values and do no arithmetic.
  The arrays \<^verbatim>\<open>coord\<close> and \<^verbatim>\<open>GridVel\<close> have \<^verbatim>\<open>nDim\<close> cells, and the code modelled reads and
  writes them below \<^verbatim>\<open>nDim\<close> only.
\<close>

record CPoint =
  coord :: vec
  GridVel :: vec
  Boundary :: bool
  vertex :: "int list option"

datatype fault = NullPointer | OutOfBounds

text \<open>\<^verbatim>\<open>if (Boundary) vertex[val_nmarker] = val_vertex;\<close>\<close>

definition SetVertex :: "CPoint \<Rightarrow> int \<Rightarrow> nat \<Rightarrow> fault + CPoint" where
  "SetVertex p val_vertex val_nmarker =
     (if Boundary p then
        (case vertex p of
           None \<Rightarrow> Inl NullPointer
         | Some a \<Rightarrow>
             if val_nmarker < length a
             then Inr (p\<lparr>vertex := Some (a[val_nmarker := val_vertex])\<rparr>)
             else Inl OutOfBounds)
      else Inr p)"

text \<open>\<^verbatim>\<open>if (Boundary) return vertex[val_marker]; else return -1;\<close>\<close>

definition GetVertex :: "CPoint \<Rightarrow> nat \<Rightarrow> fault + int" where
  "GetVertex p val_marker =
     (if Boundary p then
        (case vertex p of
           None \<Rightarrow> Inl NullPointer
         | Some a \<Rightarrow> if val_marker < length a then Inr (a ! val_marker) else Inl OutOfBounds)
      else Inr (- 1))"


section \<open>Element measures of \<^verbatim>\<open>CVolumetricMovement\<close>\<close>

text \<open>
  \<^verbatim>\<open>double CoordCorners[8][3]\<close> is indexed by corner, then by dimension; a cell that was never
  assigned is \<open>None\<close>. Every measure routine fills its local arrays \<^verbatim>\<open>a\<close>, \<^verbatim>\<open>b\<close>, \<^verbatim>\<open>r1\<close>,
  \<^verbatim>\<open>r2\<close>, \<^verbatim>\<open>r3\<close> in a loop \<^verbatim>\<open>for (iDim = 0; iDim < nDim; iDim++)\<close>, where \<^verbatim>\<open>nDim\<close> is a member
  of the class, and then reads fixed cells of them: a cell beyond \<^verbatim>\<open>nDim\<close> is unassigned.
\<close>

type_synonym corners = "nat \<Rightarrow> nat \<Rightarrow> real option"

text \<open>\<^verbatim>\<open>for (iDim = 0; iDim < nDim; iDim++) a[iDim] = p[iDim] - q[iDim];\<close>\<close>

definition edge_vector :: "nat \<Rightarrow> (nat \<Rightarrow> real option) \<Rightarrow> (nat \<Rightarrow> real option) \<Rightarrow> nat \<Rightarrow> real option" where
  "edge_vector nDim p q iDim =
     (if iDim < nDim then do { x \<leftarrow> p iDim; y \<leftarrow> q iDim; Some (x - y) } else None)"

text \<open>\<^verbatim>\<open>0.5*fabs(a[0]*b[1]-a[1]*b[0])\<close>\<close>

definition half_cross_2D :: "(nat \<Rightarrow> real option) \<Rightarrow> (nat \<Rightarrow> real option) \<Rightarrow> real option" where
  "half_cross_2D a b =
     do { a0 \<leftarrow> a 0; b1 \<leftarrow> b 1; a1 \<leftarrow> a 1; b0 \<leftarrow> b 0; Some (0.5 * \<bar>a0 * b1 - a1 * b0\<bar>) }"

definition GetTriangle_Area :: "nat \<Rightarrow> corners \<Rightarrow> real option" where
  "GetTriangle_Area nDim CoordCorners =
     half_cross_2D (edge_vector nDim (CoordCorners 0) (CoordCorners 2))
                   (edge_vector nDim (CoordCorners 1) (CoordCorners 2))"

definition GetRectangle_Area :: "nat \<Rightarrow> corners \<Rightarrow> real option" where
  "GetRectangle_Area nDim CoordCorners =
     do {
       Area1 \<leftarrow> half_cross_2D (edge_vector nDim (CoordCorners 0) (CoordCorners 2))
                             (edge_vector nDim (CoordCorners 1) (CoordCorners 2));
       Area2 \<leftarrow> half_cross_2D (edge_vector nDim (CoordCorners 0) (CoordCorners 3))
                             (edge_vector nDim (CoordCorners 2) (CoordCorners 3));
       Some (Area1 + Area2)
     }"

text \<open>
  The block every volume routine repeats for the corners \<^verbatim>\<open>Coord_0 .. Coord_3\<close>:
  \<^verbatim>\<open>r1 = Coord_1 - Coord_0\<close>, \<^verbatim>\<open>r2 = Coord_2 - Coord_0\<close>, \<^verbatim>\<open>r3 = Coord_3 - Coord_0\<close>, then
  \<^verbatim>\<open>CrossProduct[0] = (r1[1]*r2[2] - r1[2]*r2[1])*r3[0]\<close>,
  \<^verbatim>\<open>CrossProduct[1] = (r1[2]*r2[0] - r1[0]*r2[2])*r3[1]\<close>,
  \<^verbatim>\<open>CrossProduct[2] = (r1[0]*r2[1] - r1[1]*r2[0])*r3[2]\<close> and
  \<^verbatim>\<open>(CrossProduct[0] + CrossProduct[1] + CrossProduct[2])/6.0\<close>.
\<close>

definition triple_product_6 ::
  "(nat \<Rightarrow> real option) \<Rightarrow> (nat \<Rightarrow> real option) \<Rightarrow> (nat \<Rightarrow> real option) \<Rightarrow> real option" where
  "triple_product_6 r1 r2 r3 =
     do {
       r10 \<leftarrow> r1 0; r11 \<leftarrow> r1 1; r12 \<leftarrow> r1 2;
       r20 \<leftarrow> r2 0; r21 \<leftarrow> r2 1; r22 \<leftarrow> r2 2;
       r30 \<leftarrow> r3 0; r31 \<leftarrow> r3 1; r32 \<leftarrow> r3 2;
       Some (((r11 * r22 - r12 * r21) * r30
            + (r12 * r20 - r10 * r22) * r31
            + (r10 * r21 - r11 * r20) * r32) / 6)
     }"

definition sub_tetra :: "nat \<Rightarrow> corners \<Rightarrow> nat \<Rightarrow> nat \<Rightarrow> nat \<Rightarrow> nat \<Rightarrow> real option" where
  "sub_tetra nDim CoordCorners c0 c1 c2 c3 =
     triple_product_6 (edge_vector nDim (CoordCorners c1) (CoordCorners c0))
                      (edge_vector nDim (CoordCorners c2) (CoordCorners c0))
                      (edge_vector nDim (CoordCorners c3) (CoordCorners c0))"

definition GetTetra_Volume :: "nat \<Rightarrow> corners \<Rightarrow> real option" where
  "GetTetra_Volume nDim CoordCorners = sub_tetra nDim CoordCorners 0 1 2 3"

definition GetPyram_Volume :: "nat \<Rightarrow> corners \<Rightarrow> real option" where
  "GetPyram_Volume nDim CoordCorners =
     do {
       V1 \<leftarrow> sub_tetra nDim CoordCorners 0 1 2 4;
       V2 \<leftarrow> sub_tetra nDim CoordCorners 0 2 3 4;
       Some (V1 + V2)
     }"

definition GetWedge_Volume :: "nat \<Rightarrow> corners \<Rightarrow> real option" where
  "GetWedge_Volume nDim CoordCorners =
     do {
       V1 \<leftarrow> sub_tetra nDim CoordCorners 0 2 1 5;
       V2 \<leftarrow> sub_tetra nDim CoordCorners 0 5 1 4;
       V3 \<leftarrow> sub_tetra nDim CoordCorners 0 5 4 3;
       Some (V1 + V2 + V3)
     }"

definition GetHexa_Volume :: "nat \<Rightarrow> corners \<Rightarrow> real option" where
  "GetHexa_Volume nDim CoordCorners =
     do {
       V1 \<leftarrow> sub_tetra nDim CoordCorners 0 1 2 5;
       V2 \<leftarrow> sub_tetra nDim CoordCorners 0 2 7 5;
       V3 \<leftarrow> sub_tetra nDim CoordCorners 0 2 3 7;
       V4 \<leftarrow> sub_tetra nDim CoordCorners 0 5 7 4;
       V5 \<leftarrow> sub_tetra nDim CoordCorners 2 7 5 6;
       Some (V1 + V2 + V3 + V4 + V5)
     }"






section \<open>Mesh quality: \<^verbatim>\<open>CVolumetricMovement::Check_Grid\<close>\<close>

datatype VTK_Type = VERTEX | LINE | TRIANGLE | RECTANGLE | TETRAHEDRON | HEXAHEDRON | WEDGE | PYRAMID

text \<open>
  An element (\<^verbatim>\<open>geometry->elem[iElem]\<close>) answers \<^verbatim>\<open>GetVTK_Type()\<close> and \<^verbatim>\<open>GetNode(iNodes)\<close>; a
  point (\<^verbatim>\<open>geometry->node[iPoint]\<close>) answers \<^verbatim>\<open>GetCoord(iDim)\<close> from an array of \<^verbatim>\<open>nDim\<close>
  coordinates.
\<close>

record CPrimalGrid =
  VTK :: VTK_Type
  Nodes :: "nat list"

text \<open>
  A boundary vertex (\<^verbatim>\<open>geometry->vertex[iMarker][iVertex]\<close>) carries the accumulated surface
  displacement \<^verbatim>\<open>VarCoord\<close>, its Cartesian coordinate (returned by \<^verbatim>\<open>GetCoord()\<close>) and its normal.
\<close>

record CVertex =
  VarCoord :: vec
  CartCoord :: vec
  Normal :: vec

text \<open>
  The part of \<^verbatim>\<open>CGeometry\<close> the routines use: \<^verbatim>\<open>GetnDim()\<close>, the elements, the points, and for
  every marker its array of vertices, whose length is \<^verbatim>\<open>nVertex[iMarker]\<close>.
\<close>

record CGeometry =
  GetnDim :: nat
  elem :: "CPrimalGrid list"
  node :: "CPoint list"
  Marker_vertex :: "nat \<Rightarrow> CVertex list"

definition point_at :: "real list \<Rightarrow> CPoint" where
  "point_at xs = \<lparr>coord = vec_of xs, GridVel = zero_vec, Boundary = False, vertex = None\<rparr>"

text \<open>
  The locals of \<^verbatim>\<open>Check_Grid\<close> are declared before the loop over the elements and keep their
  values from one element to the next: \<^verbatim>\<open>nNodes\<close> and \<^verbatim>\<open>Area\<close>/\<^verbatim>\<open>Volume\<close> are only
  reassigned when one of the \<^verbatim>\<open>if\<close>s fires.
\<close>

record check_locals =
  ElemCounter :: nat
  Area :: real
  Volume :: real
  MaxArea :: real
  MaxVolume :: real
  MinArea :: real
  MinVolume :: real
  CoordCorners :: corners
  nNodes :: nat
  RightVol :: bool

definition check_locals_init :: check_locals where
  "check_locals_init =
     \<lparr>ElemCounter = 0, Area = 0, Volume = 0, MaxArea = - (10 ^ 22), MaxVolume = - (10 ^ 22),
      MinArea = 10 ^ 22, MinVolume = 10 ^ 22, CoordCorners = (\<lambda>iNode iDim. None), nNodes = 0,
      RightVol = True\<rparr>"

text \<open>The six consecutive \<^verbatim>\<open>if (... == TYPE) nNodes = k;\<close>.\<close>

fun nNodes_of :: "VTK_Type \<Rightarrow> nat \<Rightarrow> nat" where
  "nNodes_of TRIANGLE n = 3"
| "nNodes_of RECTANGLE n = 4"
| "nNodes_of TETRAHEDRON n = 4"
| "nNodes_of PYRAMID n = 5"
| "nNodes_of WEDGE n = 6"
| "nNodes_of HEXAHEDRON n = 8"
| "nNodes_of VERTEX n = n"
| "nNodes_of LINE n = n"

text \<open>
  \<^verbatim>\<open>for (iNodes = 0; iNodes < nNodes; iNodes++) { PointCorners[iNodes] = elem->GetNode(iNodes);
  for (iDim = 0; iDim < nDim; iDim++) CoordCorners[iNodes][iDim] = node[PointCorners[iNodes]]->GetCoord(iDim); }\<close>
  The recursion counts the corners still to load; a node index outside the element's
  connectivity or outside the point array is an out-of-bounds read.
\<close>

definition load_corner :: "nat \<Rightarrow> CGeometry \<Rightarrow> CPrimalGrid \<Rightarrow> nat \<Rightarrow> corners \<Rightarrow> corners option" where
  "load_corner nDim geometry e iNodes cc =
     (if iNodes < length (Nodes e) \<and> Nodes e ! iNodes < length (node geometry)
      then Some (\<lambda>c iDim. if c = iNodes \<and> iDim < nDim
                           then Some (coord (node geometry ! (Nodes e ! iNodes)) iDim) else cc c iDim)
      else None)"

fun load_corners :: "nat \<Rightarrow> CGeometry \<Rightarrow> CPrimalGrid \<Rightarrow> nat \<Rightarrow> nat \<Rightarrow> corners \<Rightarrow> corners option" where
  "load_corners nDim geometry e iNodes 0 cc = Some cc"
| "load_corners nDim geometry e iNodes (Suc k) cc =
     do { cc' \<leftarrow> load_corner nDim geometry e iNodes cc;
          load_corners nDim geometry e (Suc iNodes) k cc' }"

text \<open>The body of the loop over the elements, for one element.\<close>

definition Check_Grid_elem :: "real \<Rightarrow> nat \<Rightarrow> CGeometry \<Rightarrow> CPrimalGrid \<Rightarrow> check_locals \<Rightarrow> check_locals option" where
  "Check_Grid_elem EPS nDim geometry e s =
     do {
       let n = nNodes_of (VTK e) (nNodes s);
       cc \<leftarrow> load_corners nDim geometry e 0 n (CoordCorners s);
       let s1 = s\<lparr>nNodes := n, CoordCorners := cc\<rparr>;
       s2 \<leftarrow> (if nDim = 2 then
                do {
                  A \<leftarrow> (if n = 3 then GetTriangle_Area nDim cc
                        else if n = 4 then GetRectangle_Area nDim cc
                        else Some (Area s1));
                  Some (s1\<lparr>Area := A, RightVol := (A \<ge> - EPS),
                           MaxArea := max (MaxArea s1) A, MinArea := min (MinArea s1) A\<rparr>)
                }
              else Some s1);
       s3 \<leftarrow> (if nDim = 3 then
                do {
                  V \<leftarrow> (if n = 4 then GetTetra_Volume nDim cc
                        else if n = 5 then GetPyram_Volume nDim cc
                        else if n = 6 then GetWedge_Volume nDim cc
                        else if n = 8 then GetHexa_Volume nDim cc
                        else Some (Volume s2));
                  Some (s2\<lparr>Volume := V, RightVol := (V \<ge> - EPS),
                           MaxVolume := max (MaxVolume s2) V, MinVolume := min (MinVolume s2) V\<rparr>)
                }
              else Some s2);
       Some (if \<not> RightVol s3 then s3\<lparr>ElemCounter := ElemCounter s3 + 1\<rparr> else s3)
     }"

fun Check_Grid_loop :: "real \<Rightarrow> nat \<Rightarrow> CGeometry \<Rightarrow> CPrimalGrid list \<Rightarrow> check_locals \<Rightarrow> check_locals option" where
  "Check_Grid_loop EPS nDim geometry [] s = Some s"
| "Check_Grid_loop EPS nDim geometry (e # es) s =
     do { s' \<leftarrow> Check_Grid_elem EPS nDim geometry e s;
          Check_Grid_loop EPS nDim geometry es s' }"

text \<open>
  What \<^verbatim>\<open>Check_Grid\<close> writes to \<^verbatim>\<open>cout\<close>: the line
  \<^verbatim>\<open>"There are " << ElemCounter << " elements with negative volume.\n"\<close>.
\<close>

datatype check_message = NegativeVolume nat

record check_result =
  returned :: real
  console :: "check_message list"

text \<open>
  The build without MPI (\<^verbatim>\<open>HAVE_MPI\<close> undefined, \<^verbatim>\<open>rank = MASTER_NODE\<close>). \<^verbatim>\<open>EPS\<close> is a constant
  of a header that is not part of the sources at hand and is a parameter here.
\<close>

definition Check_Grid :: "real \<Rightarrow> nat \<Rightarrow> CGeometry \<Rightarrow> check_result option" where
  "Check_Grid EPS nDim geometry =
     do {
       s \<leftarrow> Check_Grid_loop EPS nDim geometry (elem geometry) check_locals_init;
       Some \<lparr>returned = (if nDim = 2 then MinArea s else MinVolume s),
             console = (if ElemCounter s \<noteq> 0 then [NegativeVolume (ElemCounter s)] else [])\<rparr>
     }"

text \<open>
  A 2D mesh of one triangle over the points \<open>(0,0)\<close>, \<open>(1,0)\<close>, \<open>(0,1)\<close>, and the same mesh
  with the first two corner ids of the triangle swapped; a 3D mesh of one tetrahedron and
  the same with two corner ids swapped.
\<close>

definition tri_mesh :: "nat list \<Rightarrow> CGeometry" where
  "tri_mesh ids =
     \<lparr>GetnDim = 2, elem = [\<lparr>VTK = TRIANGLE, Nodes = ids\<rparr>],
      node = [point_at [0, 0], point_at [1, 0], point_at [0, 1]],
      Marker_vertex = (\<lambda>iMarker. [])\<rparr>"

definition tet_mesh :: "nat list \<Rightarrow> CGeometry" where
  "tet_mesh ids =
     \<lparr>GetnDim = 3, elem = [\<lparr>VTK = TETRAHEDRON, Nodes = ids\<rparr>],
      node = [point_at [0, 0, 0], point_at [1, 0, 0], point_at [0, 1, 0], point_at [0, 0, 1]],
      Marker_vertex = (\<lambda>iMarker. [])\<rparr>"


text \<open>What the 2D branch of \<^verbatim>\<open>Check_Grid\<close> maintains when \<^verbatim>\<open>EPS\<close> is not negative.\<close>

definition area_inv :: "check_locals \<Rightarrow> bool" where
  "area_inv s = (ElemCounter s = 0 \<and> 0 \<le> Area s \<and> 0 \<le> MinArea s)"


section \<open>Surface deformation: \<^verbatim>\<open>CSurfaceMovement\<close>\<close>

text \<open>
  The part of \<^verbatim>\<open>CConfig\<close> the surface routines read, each field named after its getter:
  \<^verbatim>\<open>GetnMarker_All()\<close>, \<^verbatim>\<open>GetMarker_All_DV(iMarker) == YES\<close>, \<^verbatim>\<open>GetnDV()\<close>, \<^verbatim>\<open>GetDV_Value(iDV)\<close>
  and \<^verbatim>\<open>GetParamDV(iDV, iParam)\<close>.
\<close>

record CConfig =
  nMarker_All :: nat
  Marker_All_DV :: "nat \<Rightarrow> bool"
  nDV :: nat
  DV_Value :: "nat \<Rightarrow> real"
  ParamDV :: "nat \<Rightarrow> nat \<Rightarrow> real"

text \<open>
  \<^verbatim>\<open>CVertex::SetVarCoord\<close> and \<^verbatim>\<open>CVertex::AddVarCoord\<close>:
  \<^verbatim>\<open>for (iDim = 0; iDim < nDim; iDim++) VarCoord[iDim] = val_varcoord[iDim];\<close> (respectively \<^verbatim>\<open>+=\<close>).
\<close>

definition SetVarCoord :: "nat \<Rightarrow> vec \<Rightarrow> CVertex \<Rightarrow> CVertex" where
  "SetVarCoord nDim val_varcoord vtx =
     vtx\<lparr>VarCoord := (\<lambda>iDim. if iDim < nDim then val_varcoord iDim else VarCoord vtx iDim)\<rparr>"

definition AddVarCoord :: "nat \<Rightarrow> vec \<Rightarrow> CVertex \<Rightarrow> CVertex" where
  "AddVarCoord nDim val_varcoord vtx =
     vtx\<lparr>VarCoord := (\<lambda>iDim. if iDim < nDim then VarCoord vtx iDim + val_varcoord iDim
                               else VarCoord vtx iDim)\<rparr>"

text \<open>
  The double loop
  \<^verbatim>\<open>for (iMarker = 0; iMarker < config->GetnMarker_All(); iMarker++)
    for (iVertex = 0; iVertex < boundary->nVertex[iMarker]; iVertex++)\<close>
  whose body updates the vertex \<^verbatim>\<open>boundary->vertex[iMarker][iVertex]\<close> from that vertex alone.
\<close>

definition for_each_vertex :: "CConfig \<Rightarrow> (nat \<Rightarrow> CVertex \<Rightarrow> CVertex) \<Rightarrow> CGeometry \<Rightarrow> CGeometry" where
  "for_each_vertex config body boundary =
     boundary\<lparr>Marker_vertex :=
       (\<lambda>iMarker. if iMarker < nMarker_All config
                   then map (body iMarker) (Marker_vertex boundary iMarker)
                   else Marker_vertex boundary iMarker)\<rparr>"

text \<open>
  The reset block shared by \<^verbatim>\<open>SetRotation\<close> and \<^verbatim>\<open>SetDisplacement\<close>:
  every vertex of every marker gets \<^verbatim>\<open>SetVarCoord\<close> of the zero vector.
\<close>

definition Reset_VarCoord :: "CConfig \<Rightarrow> CGeometry \<Rightarrow> CGeometry" where
  "Reset_VarCoord config boundary =
     for_each_vertex config (\<lambda>iMarker. SetVarCoord (GetnDim boundary) zero_vec) boundary"

subsection \<open>\<^verbatim>\<open>SetDisplacement\<close>\<close>

text \<open>The local array \<^verbatim>\<open>VarCoord[3]\<close> that the loop body of \<^verbatim>\<open>SetDisplacement\<close> builds.\<close>

definition Displacement_VarCoord :: "CConfig \<Rightarrow> nat \<Rightarrow> nat \<Rightarrow> nat \<Rightarrow> vec" where
  "Displacement_VarCoord config nDim iDV iMarker =
     (let Ampl = DV_Value config iDV;
          xDispl = ParamDV config iDV 0;
          yDispl = ParamDV config iDV 1;
          zDispl = (if nDim = 3 then ParamDV config iDV 2 else 0)
      in if Marker_All_DV config iMarker
         then (\<lambda>iDim. if iDim = 0 then Ampl * xDispl
                       else if iDim = 1 then Ampl * yDispl
                       else if iDim = 2 \<and> nDim = 3 then Ampl * zDispl
                       else 0)
         else zero_vec)"

definition SetDisplacement :: "CGeometry \<Rightarrow> CConfig \<Rightarrow> nat \<Rightarrow> bool \<Rightarrow> CGeometry" where
  "SetDisplacement boundary config iDV ResetDef =
     (let boundary1 = (if iDV = 0 \<or> ResetDef then Reset_VarCoord config boundary else boundary)
      in for_each_vertex config
           (\<lambda>iMarker. AddVarCoord (GetnDim boundary)
                         (Displacement_VarCoord config (GetnDim boundary) iDV iMarker))
           boundary1)"

subsection \<open>\<^verbatim>\<open>SetRotation\<close>\<close>

text \<open>
  The line of rotation as \<^verbatim>\<open>SetRotation\<close> reads it from the configuration: a point
  \<^verbatim>\<open>(a, b, c)\<close> on the line and the direction \<^verbatim>\<open>(u, v, w)\<close>.
  \<^verbatim>\<open>double a = config->GetParamDV(iDV, 0); double b = config->GetParamDV(iDV, 1); double c = 0.0;
  if (boundary->GetnDim() == 3) c = config->GetParamDV(0,2);
  double u = config->GetParamDV(iDV, 3)-config->GetParamDV(iDV, 0);
  double v = config->GetParamDV(iDV, 4)-config->GetParamDV(iDV, 1); double w = 1.0;
  if (boundary->GetnDim() == 3) w = config->GetParamDV(iDV, 5)-config->GetParamDV(iDV, 2);\<close>
\<close>

record rotation_line =
  line_a :: real
  line_b :: real
  line_c :: real
  line_u :: real
  line_v :: real
  line_w :: real

definition Rotation_line :: "CConfig \<Rightarrow> nat \<Rightarrow> nat \<Rightarrow> rotation_line" where
  "Rotation_line config nDim iDV =
     \<lparr>line_a = ParamDV config iDV 0,
      line_b = ParamDV config iDV 1,
      line_c = (if nDim = 3 then ParamDV config 0 2 else 0),
      line_u = ParamDV config iDV 3 - ParamDV config iDV 0,
      line_v = ParamDV config iDV 4 - ParamDV config iDV 1,
      line_w = (if nDim = 3 then ParamDV config iDV 5 - ParamDV config iDV 2 else 1)\<rparr>"

text \<open>
  The array \<^verbatim>\<open>movement[3]\<close> of the loop body, for a vertex at \<^verbatim>\<open>Coord\<close>; \<^verbatim>\<open>PI_NUMBER\<close> is \<open>pi\<close>.
\<close>

definition Rotation_movement :: "rotation_line \<Rightarrow> real \<Rightarrow> nat \<Rightarrow> vec \<Rightarrow> vec" where
  "Rotation_movement axis theta nDim Coord =
     (let a = line_a axis; b = line_b axis; c = line_c axis;
          u = line_u axis; v = line_v axis; w = line_w axis;
          u2 = u * u; v2 = v * v; w2 = w * w;
          cosT = cos theta; sinT = sin theta;
          l2 = u2 + v2 + w2; l = sqrt l2;
          x = Coord 0; y = Coord 1; z = Coord 2;
          m0 = (a * (v2 + w2) + u * (- b * v - c * w + u * x + v * y + w * z)
                + (- a * (v2 + w2) + u * (b * v + c * w - v * y - w * z) + (v2 + w2) * x) * cosT
                + l * (- c * v + b * w - w * y + v * z) * sinT) / l2 - x;
          m1 = (b * (u2 + w2) + v * (- a * u - c * w + u * x + v * y + w * z)
                + (- b * (u2 + w2) + v * (a * u + c * w - u * x - w * z) + (u2 + w2) * y) * cosT
                + l * (c * u - a * w + w * x - u * z) * sinT) / l2 - y;
          m2 = c * (u2 + v2) + w * (- a * u - b * v + u * x + v * y + w * z)
                + (- c * (u2 + v2) + w * (a * u + b * v - u * x - v * y) + (u2 + v2) * z) * cosT
                + l * (- b * u + a * v - v * x + u * y) * sinT
      in (\<lambda>iDim. if iDim = 0 then m0
                  else if iDim = 1 then m1
                  else if iDim = 2 then (if nDim = 3 then m2 / l2 - z else 0)
                  else 0))"

text \<open>The local array \<^verbatim>\<open>VarCoord[3]\<close> that the loop body of \<^verbatim>\<open>SetRotation\<close> builds.\<close>

definition Rotation_VarCoord :: "CConfig \<Rightarrow> nat \<Rightarrow> nat \<Rightarrow> nat \<Rightarrow> vec \<Rightarrow> vec" where
  "Rotation_VarCoord config nDim iDV iMarker Coord =
     (let theta = DV_Value config iDV * pi / 180;
          movement = Rotation_movement (Rotation_line config nDim iDV) theta nDim Coord
      in if Marker_All_DV config iMarker
         then (\<lambda>iDim. if iDim = 0 then movement 0
                       else if iDim = 1 then movement 1
                       else if iDim = 2 \<and> nDim = 3 then movement 2
                       else 0)
         else zero_vec)"

definition SetRotation :: "CGeometry \<Rightarrow> CConfig \<Rightarrow> nat \<Rightarrow> bool \<Rightarrow> CGeometry" where
  "SetRotation boundary config iDV ResetDef =
     (let boundary1 = (if iDV = 0 \<or> ResetDef then Reset_VarCoord config boundary else boundary)
      in for_each_vertex config
           (\<lambda>iMarker vtx. AddVarCoord (GetnDim boundary)
                             (Rotation_VarCoord config (GetnDim boundary) iDV iMarker (CartCoord vtx)) vtx)
           boundary1)"


text \<open>
  A 3D boundary with one design-variable marker holding one vertex at \<open>(1,0,0)\<close>, whose stored
  delta is a stale \<open>(5,5,5)\<close>; and a configuration with the two displacement design variables
  \<open>(1,0,0)\<close> and \<open>(0,1,0)\<close>, both of amplitude 1.
\<close>

definition dv_boundary :: CGeometry where
  "dv_boundary =
     \<lparr>GetnDim = 3, elem = [], node = [],
      Marker_vertex = (\<lambda>iMarker. if iMarker = 0
         then [\<lparr>VarCoord = vec_of [5, 5, 5], CartCoord = vec_of [1, 0, 0], Normal = vec_of [0, 1, 0]\<rparr>]
         else [])\<rparr>"

definition displ_config :: CConfig where
  "displ_config =
     \<lparr>nMarker_All = 1, Marker_All_DV = (\<lambda>iMarker. True), nDV = 2, DV_Value = (\<lambda>iDV. 1),
      ParamDV = (\<lambda>iDV iParam. if iDV = 0 \<and> iParam = 0 then 1
                                else if iDV = 1 \<and> iParam = 1 then 1 else 0)\<rparr>"


text \<open>
  A configuration of rotation design variables, every one of 90 degrees, whose parameter
  vectors are the given lists.
\<close>

definition rot_config :: "real list list \<Rightarrow> CConfig" where
  "rot_config P =
     \<lparr>nMarker_All = 1, Marker_All_DV = (\<lambda>iMarker. True), nDV = length P, DV_Value = (\<lambda>iDV. 90),
      ParamDV = (\<lambda>iDV. if iDV < length P then vec_of (P ! iDV) else zero_vec)\<rparr>"


subsection \<open>\<^verbatim>\<open>SetNACA_4Digits\<close>, \<^verbatim>\<open>SetParabolic\<close>, \<^verbatim>\<open>SetObstacle\<close>\<close>

text \<open>
  The three generators write to \<^verbatim>\<open>cout\<close> and read from \<^verbatim>\<open>cin\<close>. The state of the process is
  what has been written and what is left to read; a routine either returns to its caller,
  with the boundary it has deformed, or terminates the process (as \<^verbatim>\<open>exit(EXIT_FAILURE)\<close> does
  elsewhere in the file).
\<close>

record process_io =
  cout :: "string list"
  cin :: string

datatype outcome = Terminated process_io | Returned process_io CGeometry

text \<open>
  \<^verbatim>\<open>if (config->GetnDV() != 1) { cout << "This kind of design variable is not prepared for
  multiple deformations."; cin.get(); }\<close>
  \<^verbatim>\<open>cin.get()\<close> extracts one character, or nothing at the end of the input.
\<close>

definition single_DV_check :: "CConfig \<Rightarrow> process_io \<Rightarrow> process_io" where
  "single_DV_check config io =
     (if nDV config \<noteq> 1
      then io\<lparr>cout := cout io @ [''This kind of design variable is not prepared for multiple deformations.''],
              cin := tl (cin io)\<rparr>
      else io)"

text \<open>
  The local array \<^verbatim>\<open>VarCoord[3]\<close> of each loop body; \<^verbatim>\<open>pow(x, 2.0)\<close>, \<^verbatim>\<open>pow(x, 3.0)\<close> and
  \<^verbatim>\<open>pow(x, 4.0)\<close> are powers with a natural exponent.
\<close>

definition NACA_4Digits_VarCoord :: "CConfig \<Rightarrow> nat \<Rightarrow> CVertex \<Rightarrow> vec" where
  "NACA_4Digits_VarCoord config iMarker vtx =
     (let Ya = ParamDV config 0 0 / 100;
          Xa = ParamDV config 0 1 / 10;
          t = ParamDV config 0 2 / 100;
          Coord = CartCoord vtx;
          Ycurv = (if Coord 0 < Xa
                   then (2 * Xa * Coord 0 - (Coord 0) ^ 2) * (Ya / Xa ^ 2)
                   else ((1 - 2 * Xa) + 2 * Xa * Coord 0 - (Coord 0) ^ 2) * (Ya / (1 - Xa) ^ 2));
          Yesp = t * (1.4845 * sqrt (Coord 0) - 0.6300 * Coord 0 - 1.7580 * (Coord 0) ^ 2
                      + 1.4215 * (Coord 0) ^ 3 - 0.518 * (Coord 0) ^ 4)
      in if Marker_All_DV config iMarker
         then (\<lambda>iDim. if iDim = 1
                       then (if Normal vtx 1 > 0 then (Ycurv + Yesp) - Coord 1
                             else if Normal vtx 1 < 0 then (Ycurv - Yesp) - Coord 1
                             else 0)
                       else 0)
         else zero_vec)"

definition SetNACA_4Digits :: "process_io \<Rightarrow> CGeometry \<Rightarrow> CConfig \<Rightarrow> outcome" where
  "SetNACA_4Digits io boundary config =
     Returned (single_DV_check config io)
       (for_each_vertex config
          (\<lambda>iMarker vtx. SetVarCoord (GetnDim boundary) (NACA_4Digits_VarCoord config iMarker vtx) vtx)
          boundary)"

definition Parabolic_VarCoord :: "CConfig \<Rightarrow> nat \<Rightarrow> CVertex \<Rightarrow> vec" where
  "Parabolic_VarCoord config iMarker vtx =
     (let c = ParamDV config 0 0;
          t = ParamDV config 0 1 / 100;
          Coord = CartCoord vtx
      in if Marker_All_DV config iMarker
         then (\<lambda>iDim. if iDim = 1
                       then (if Normal vtx 1 > 0
                             then t * (Coord 0 * Coord 0 - Coord 0) / (2 * (c * c - c)) - Coord 1
                             else if Normal vtx 1 < 0
                             then t * (Coord 0 - Coord 0 * Coord 0) / (2 * (c * c - c)) - Coord 1
                             else 0)
                       else 0)
         else zero_vec)"

definition SetParabolic :: "process_io \<Rightarrow> CGeometry \<Rightarrow> CConfig \<Rightarrow> outcome" where
  "SetParabolic io boundary config =
     Returned (single_DV_check config io)
       (for_each_vertex config
          (\<lambda>iMarker vtx. SetVarCoord (GetnDim boundary) (Parabolic_VarCoord config iMarker vtx) vtx)
          boundary)"

definition Obstacle_VarCoord :: "CConfig \<Rightarrow> nat \<Rightarrow> CVertex \<Rightarrow> vec" where
  "Obstacle_VarCoord config iMarker vtx =
     (let H = ParamDV config 0 0;
          L = ParamDV config 0 1;
          xOffSet = 0;
          xCoord = CartCoord vtx 0 - xOffSet
      in if Marker_All_DV config iMarker
         then (\<lambda>iDim. if iDim = 1
                       then (if xCoord > 0 \<and> xCoord < L
                             then (27 / 4) * (H / (L * L * L)) * xCoord * (xCoord - L) * (xCoord - L)
                             else 0)
                       else 0)
         else zero_vec)"

definition SetObstacle :: "process_io \<Rightarrow> CGeometry \<Rightarrow> CConfig \<Rightarrow> outcome" where
  "SetObstacle io boundary config =
     Returned (single_DV_check config io)
       (for_each_vertex config
          (\<lambda>iMarker vtx. SetVarCoord (GetnDim boundary) (Obstacle_VarCoord config iMarker vtx) vtx)
          boundary)"

text \<open>An obstacle of height 1 and length 2, configured with two design variables.\<close>

definition obstacle_config :: CConfig where
  "obstacle_config =
     \<lparr>nMarker_All = 1, Marker_All_DV = (\<lambda>iMarker. True), nDV = 2, DV_Value = (\<lambda>iDV. 1),
      ParamDV = (\<lambda>iDV iParam. if iDV = 0 \<and> iParam = 0 then 1
                                else if iDV = 0 \<and> iParam = 1 then 2 else 0)\<rparr>"


section \<open>Rigid motion of the volume grid: \<^verbatim>\<open>CVolumetricMovement::Rigid_Translation\<close>\<close>









section \<open>Free-form deformation box: \<^verbatim>\<open>CFreeFormDefBox\<close>\<close>

subsection \<open>Bernstein polynomials\<close>

text \<open>
  \<^verbatim>\<open>Binomial(n, m)\<close> builds row \<^verbatim>\<open>n\<close> of Pascal's triangle in place, in the local array
  \<^verbatim>\<open>unsigned long binomial[1000]\<close> (64-bit words: the additions wrap around):
  \<^verbatim>\<open>binomial[0] = 1; for (i = 1; i <= n; ++i) { binomial[i] = 1;
  for (j = i-1U; j > 0; --j) binomial[j] += binomial[j-1U]; } return binomial[m];\<close>
  The list \<open>row\<close> holds the cells assigned so far, \<^verbatim>\<open>binomial[0 .. i-1]\<close> when the outer loop reaches
  \<^verbatim>\<open>i\<close>, so that \<^verbatim>\<open>binomial[i] = 1\<close> appends a cell. The capacity 1000 of the array is outside
  the model, and \<^verbatim>\<open>binomial[m]\<close> with \<^verbatim>\<open>m > n\<close> reads a cell that was never assigned;
  \<open>GetBernstein\<close> calls \<open>Binomial\<close> with \<^verbatim>\<open>m <= n\<close> only.
\<close>

fun Binomial_inner :: "nat \<Rightarrow> 64 word list \<Rightarrow> 64 word list" where
  "Binomial_inner 0 row = row"
| "Binomial_inner (Suc j) row =
     Binomial_inner j (row[Suc j := row ! Suc j + row ! j])"

fun Binomial_outer :: "nat \<Rightarrow> nat \<Rightarrow> 64 word list \<Rightarrow> 64 word list" where
  "Binomial_outer i 0 row = row"
| "Binomial_outer i (Suc k) row =
     Binomial_outer (Suc i) k (Binomial_inner (i - 1) (row @ [1]))"

definition Binomial :: "nat \<Rightarrow> nat \<Rightarrow> 64 word" where
  "Binomial n m = Binomial_outer 1 n [1] ! m"

text \<open>
  The conversion of a \<^verbatim>\<open>short\<close> argument to the \<^verbatim>\<open>unsigned short\<close> parameter of
  \<^verbatim>\<open>Binomial\<close>.
\<close>

definition ushort :: "int \<Rightarrow> nat" where
  "ushort x = nat (x mod 65536)"

text \<open>
  \<^verbatim>\<open>GetBernstein(short val_n, short val_i, double val_t)\<close>; a \<^verbatim>\<open>short\<close> is an \<^typ>\<open>int\<close>, and
  \<^verbatim>\<open>pow\<close> with an integer exponent is \<open>powi\<close>.
\<close>

definition GetBernstein :: "int \<Rightarrow> int \<Rightarrow> real \<Rightarrow> real" where
  "GetBernstein val_n val_i val_t =
     (if val_i > val_n then 0
      else if val_i = 0 then
        (if val_t = 0 then 1
         else if val_t = 1 then 0
         else real (unat (Binomial (ushort val_n) (ushort val_i)))
              * (val_t powi val_i) * ((1 - val_t) powi (val_n - val_i)))
      else if val_i = val_n then
        (if val_t = 0 then 0
         else if val_t = 1 then 1
         else val_t powi val_n)
      else real (unat (Binomial (ushort val_n) (ushort val_i)))
           * (val_t powi val_i) * ((1 - val_t) powi (val_n - val_i)))"

text \<open>
  \<^verbatim>\<open>GetBernsteinDerivative(val_n, val_i, val_t, val_order)\<close>; the callers pass the order 1 or
  2, a natural number here.
\<close>

fun GetBernsteinDerivative :: "int \<Rightarrow> int \<Rightarrow> real \<Rightarrow> nat \<Rightarrow> real" where
  "GetBernsteinDerivative val_n val_i val_t 0 = GetBernstein val_n val_i val_t"
| "GetBernsteinDerivative val_n val_i val_t (Suc val_order) =
     (if val_i = 0 then
        of_int val_n * (- GetBernsteinDerivative (val_n - 1) val_i val_t val_order)
      else if val_n = 0 then val_t
      else of_int val_n * (GetBernsteinDerivative (val_n - 1) (val_i - 1) val_t val_order
                           - GetBernsteinDerivative (val_n - 1) val_i val_t val_order))"

subsection \<open>The box and its partial derivatives\<close>



text \<open>
  \<^verbatim>\<open>for (i = 0; i <= n; i++) value += f(i);\<close> starting from 0, and the three nested loops over
  the control points.
\<close>

definition sum_upto :: "nat \<Rightarrow> (nat \<Rightarrow> real) \<Rightarrow> real" where
  "sum_upto n f = sum_list (map f [0..<Suc n])"










subsection \<open>Gradient and Hessian of the squared distance\<close>









subsection \<open>Point inversion: \<^verbatim>\<open>GetParametricCoord_Iterative\<close>\<close>



















section \<open>Theorems\<close>

subsection \<open>Boundary-vertex index of a point\<close>

text \<open>
  C10. For a point whose boundary flag is false and for every marker index, \<open>GetVertex\<close>
  returns \<open>-1\<close> and \<open>SetVertex\<close> returns the point unmodified; neither result depends on the
  per-marker storage, whatever it holds (even a null pointer, even a marker index beyond the
  array), so the storage is neither read nor written unless the flag is set.
\<close>

theorem GetVertex_SetVertex_not_boundary:
  "\<not> Boundary p \<Longrightarrow>
     GetVertex p val_marker = Inr (- 1)
   \<and> SetVertex p val_vertex val_marker = Inr p
   \<and> GetVertex (p\<lparr>vertex := storage\<rparr>) val_marker = Inr (- 1)
   \<and> SetVertex (p\<lparr>vertex := storage\<rparr>) val_vertex val_marker = Inr (p\<lparr>vertex := storage\<rparr>)"
  by (simp add: GetVertex_def SetVertex_def)

theorem GetVertex_SetVertex_not_boundary_witness:
  "\<not> Boundary ((point_at [0, 0, 0])\<lparr>vertex := Some [7, 8]\<rparr>)
   \<and> GetVertex ((point_at [0, 0, 0])\<lparr>vertex := Some [7, 8]\<rparr>) 1 = Inr (- 1)
   \<and> SetVertex ((point_at [0, 0, 0])\<lparr>vertex := Some [7, 8]\<rparr>) 5 1
       = Inr ((point_at [0, 0, 0])\<lparr>vertex := Some [7, 8]\<rparr>)
   \<and> GetVertex ((point_at [0, 0, 0])\<lparr>vertex := None\<rparr>) 1 = Inr (- 1)"
  using GetVertex_SetVertex_not_boundary
    [of "(point_at [0, 0, 0])\<lparr>vertex := Some [7, 8]\<rparr>" 1 5 None]
  by (simp add: point_at_def)

subsection \<open>Reference elements\<close>


subsection \<open>Mesh quality in 2D\<close>

lemma half_cross_2D_nonneg: "half_cross_2D a b = Some A \<Longrightarrow> 0 \<le> A"
  by (auto simp: half_cross_2D_def split: Option.bind_splits)

lemma GetTriangle_Area_nonneg: "GetTriangle_Area nDim cc = Some A \<Longrightarrow> 0 \<le> A"
  unfolding GetTriangle_Area_def by (rule half_cross_2D_nonneg)

lemma GetRectangle_Area_nonneg: "GetRectangle_Area nDim cc = Some A \<Longrightarrow> 0 \<le> A"
  unfolding GetRectangle_Area_def
  by (auto split: Option.bind_splits dest!: half_cross_2D_nonneg)

lemma Check_Grid_elem_2D_inv:
  assumes "0 \<le> EPS" and "area_inv s" and "Check_Grid_elem EPS 2 geometry e s = Some s'"
  shows "area_inv s'"
  using assms
  by (auto simp: Check_Grid_elem_def area_inv_def Let_def min_def
      split: Option.bind_splits if_splits
      dest: GetTriangle_Area_nonneg GetRectangle_Area_nonneg)

lemma Check_Grid_loop_2D_inv:
  "0 \<le> EPS \<Longrightarrow> area_inv s \<Longrightarrow> Check_Grid_loop EPS 2 geometry es s = Some s' \<Longrightarrow> area_inv s'"
proof (induction es arbitrary: s)
  case Nil
  then show ?case by simp
next
  case (Cons e es)
  from Cons.prems(3) obtain s1 where
    s1: "Check_Grid_elem EPS 2 geometry e s = Some s1"
    and rest: "Check_Grid_loop EPS 2 geometry es s1 = Some s'"
    by (auto split: Option.bind_splits)
  from Check_Grid_elem_2D_inv [OF Cons.prems(1,2) s1] have "area_inv s1" .
  from Cons.IH [OF Cons.prems(1) this rest] show ?case .
qed

lemma area_inv_init: "area_inv check_locals_init"
  by (simp add: area_inv_def check_locals_init_def)

text \<open>
  The sibling path: in 3D the tetrahedron volume is signed, and the same swap of two corner
  ids is reported.
\<close>

lemma Check_Grid_3D_swapped_tetra:
  "Check_Grid (1 / 10 ^ 16) 3 (tet_mesh [0, 1, 2, 3]) = Some \<lparr>returned = 1 / 6, console = []\<rparr>
   \<and> Check_Grid (1 / 10 ^ 16) 3 (tet_mesh [1, 0, 2, 3])
       = Some \<lparr>returned = - (1 / 6), console = [NegativeVolume 1]\<rparr>"
  by (simp add: Check_Grid_def Check_Grid_elem_def check_locals_init_def tet_mesh_def
      load_corner_def point_at_def vec_of_def GetTetra_Volume_def sub_tetra_def triple_product_6_def edge_vector_def
      eval_nat_numeral)

text \<open>
  C1 (what the code does instead). \<open>GetTriangle_Area\<close> and \<open>GetRectangle_Area\<close> take the
  absolute value of the 2D cross product, so the 2D measures are never negative: for every
  2D mesh on which \<open>Check_Grid\<close> returns, and every tolerance \<open>EPS \<ge> 0\<close>, it prints no
  count of invalid elements and returns a minimum measure that is not negative. An inverted
  2D element is therefore never reported; the test \<^verbatim>\<open>Area >= -EPS\<close> cannot fail.
\<close>

theorem Check_Grid_2D_never_reports:
  "0 \<le> EPS \<Longrightarrow> Check_Grid EPS 2 geometry = Some r \<Longrightarrow> console r = [] \<and> 0 \<le> returned r"
  by (auto simp: Check_Grid_def area_inv_def split: Option.bind_splits
      dest!: Check_Grid_loop_2D_inv [OF _ area_inv_init])

text \<open>
  The triangle \<open>(0,0)\<close>, \<open>(1,0)\<close>, \<open>(0,1)\<close> with its first two corner ids swapped: the code
  returns the area \<open>1/2\<close> and prints nothing, exactly as for the triangle that is not
  swapped.
\<close>

theorem Check_Grid_2D_never_reports_witness:
  "(0::real) \<le> 1 / 10 ^ 16
   \<and> Check_Grid (1 / 10 ^ 16) 2 (tri_mesh [1, 0, 2]) = Some \<lparr>returned = 1 / 2, console = []\<rparr>
   \<and> Check_Grid (1 / 10 ^ 16) 2 (tri_mesh [0, 1, 2]) = Some \<lparr>returned = 1 / 2, console = []\<rparr>
   \<and> console \<lparr>returned = 1 / 2, console = []\<rparr> = []
   \<and> (0::real) \<le> returned \<lparr>returned = 1 / 2, console = []\<rparr>"
proof -
  have swapped: "Check_Grid (1 / 10 ^ 16) 2 (tri_mesh [1, 0, 2])
      = Some \<lparr>returned = 1 / 2, console = []\<rparr>"
    by (simp add: Check_Grid_def Check_Grid_elem_def check_locals_init_def tri_mesh_def
        load_corner_def point_at_def vec_of_def GetTriangle_Area_def half_cross_2D_def edge_vector_def eval_nat_numeral)
  have plain: "Check_Grid (1 / 10 ^ 16) 2 (tri_mesh [0, 1, 2])
      = Some \<lparr>returned = 1 / 2, console = []\<rparr>"
    by (simp add: Check_Grid_def Check_Grid_elem_def check_locals_init_def tri_mesh_def
        load_corner_def point_at_def vec_of_def GetTriangle_Area_def half_cross_2D_def edge_vector_def eval_nat_numeral)
  have eps: "(0::real) \<le> 1 / 10 ^ 16" by simp
  from Check_Grid_2D_never_reports [OF eps swapped] swapped plain eps show ?thesis by simp
qed

subsection \<open>Displacement design variables\<close>

lemma for_each_vertex_nth:
  "iMarker < nMarker_All config \<Longrightarrow> iVertex < length (Marker_vertex boundary iMarker) \<Longrightarrow>
   Marker_vertex (for_each_vertex config body boundary) iMarker ! iVertex
     = body iMarker (Marker_vertex boundary iMarker ! iVertex)"
  by (simp add: for_each_vertex_def)

lemma for_each_vertex_length:
  "length (Marker_vertex (for_each_vertex config body boundary) iMarker)
     = length (Marker_vertex boundary iMarker)"
  by (simp add: for_each_vertex_def)

lemma for_each_vertex_GetnDim: "GetnDim (for_each_vertex config body boundary) = GetnDim boundary"
  by (simp add: for_each_vertex_def)

lemma SetDisplacement_length:
  "length (Marker_vertex (SetDisplacement boundary config iDV ResetDef) iMarker)
     = length (Marker_vertex boundary iMarker)"
  by (simp add: SetDisplacement_def Reset_VarCoord_def for_each_vertex_length Let_def)

lemma SetDisplacement_GetnDim:
  "GetnDim (SetDisplacement boundary config iDV ResetDef) = GetnDim boundary"
  by (simp add: SetDisplacement_def Reset_VarCoord_def for_each_vertex_GetnDim Let_def)

lemma SetDisplacement_VarCoord:
  assumes "iMarker < nMarker_All config" and "iVertex < length (Marker_vertex boundary iMarker)"
    and "iDim < GetnDim boundary"
  shows "VarCoord (Marker_vertex (SetDisplacement boundary config iDV ResetDef) iMarker ! iVertex) iDim
     = (if iDV = 0 \<or> ResetDef then 0 else VarCoord (Marker_vertex boundary iMarker ! iVertex) iDim)
       + Displacement_VarCoord config (GetnDim boundary) iDV iMarker iDim"
  using assms
  by (simp add: SetDisplacement_def Reset_VarCoord_def for_each_vertex_nth for_each_vertex_length
      for_each_vertex_GetnDim AddVarCoord_def SetVarCoord_def zero_vec_def Let_def)

text \<open>
  C6. For every vertex of a marker below \<open>nMarker_All\<close> and every dimension below
  \<open>GetnDim \<le> 3\<close>: \<open>SetDisplacement\<close> leaves the stored delta at the design variable's
  contribution alone when \<open>iDV = 0\<close> or a reset is requested (the stored delta is zeroed
  first, on every vertex, also on markers that are not design-variable markers, where the
  contribution is zero), and at the old delta plus the contribution otherwise; the
  contribution on a design-variable marker is the amplitude \<open>DV_Value\<close> times the
  displacement parameter. Consequently, on a design-variable marker, with design variable 0
  of displacement \<open>(1,0,0)\<close> and design variable 1 of displacement \<open>(0,1,0)\<close> (amplitudes
  1), applying variable 0 and then variable 1 without reset leaves the delta at \<open>(1,1,0)\<close>,
  and with a reset on the second call at \<open>(0,1,0)\<close>, whatever delta was stored before.
\<close>

theorem SetDisplacement_accumulates:
  "(iMarker < nMarker_All config \<and> iVertex < length (Marker_vertex boundary iMarker)
      \<and> iDim < GetnDim boundary \<and> GetnDim boundary \<le> 3 \<longrightarrow>
      VarCoord (Marker_vertex (SetDisplacement boundary config iDV ResetDef) iMarker ! iVertex) iDim
        = (if iDV = 0 \<or> ResetDef then 0 else VarCoord (Marker_vertex boundary iMarker ! iVertex) iDim)
          + (if Marker_All_DV config iMarker
             then DV_Value config iDV
                  * (if iDim = 2 \<and> GetnDim boundary \<noteq> 3 then 0 else ParamDV config iDV iDim)
             else 0))
   \<and> (iMarker < nMarker_All config \<and> iVertex < length (Marker_vertex boundary iMarker)
      \<and> iDim < GetnDim boundary \<and> GetnDim boundary \<le> 3 \<and> Marker_All_DV config iMarker
      \<and> DV_Value config 0 = 1 \<and> ParamDV config 0 0 = 1 \<and> ParamDV config 0 1 = 0 \<and> ParamDV config 0 2 = 0
      \<and> DV_Value config 1 = 1 \<and> ParamDV config 1 0 = 0 \<and> ParamDV config 1 1 = 1 \<and> ParamDV config 1 2 = 0 \<longrightarrow>
      VarCoord (Marker_vertex
          (SetDisplacement (SetDisplacement boundary config 0 ResetDef) config 1 False) iMarker ! iVertex) iDim
        = vec_of [1, 1, 0] iDim
      \<and> VarCoord (Marker_vertex
          (SetDisplacement (SetDisplacement boundary config 0 ResetDef) config 1 True) iMarker ! iVertex) iDim
        = vec_of [0, 1, 0] iDim)"
proof (intro conjI impI)
  assume h: "iMarker < nMarker_All config \<and> iVertex < length (Marker_vertex boundary iMarker)
      \<and> iDim < GetnDim boundary \<and> GetnDim boundary \<le> 3"
  then have d: "iDim = 0 \<or> iDim = 1 \<or> iDim = 2" by linarith
  from h d show "VarCoord (Marker_vertex (SetDisplacement boundary config iDV ResetDef) iMarker ! iVertex) iDim
        = (if iDV = 0 \<or> ResetDef then 0 else VarCoord (Marker_vertex boundary iMarker ! iVertex) iDim)
          + (if Marker_All_DV config iMarker
             then DV_Value config iDV
                  * (if iDim = 2 \<and> GetnDim boundary \<noteq> 3 then 0 else ParamDV config iDV iDim)
             else 0)"
    by (auto simp: SetDisplacement_VarCoord Displacement_VarCoord_def zero_vec_def Let_def)
next
  assume h: "iMarker < nMarker_All config \<and> iVertex < length (Marker_vertex boundary iMarker)
      \<and> iDim < GetnDim boundary \<and> GetnDim boundary \<le> 3 \<and> Marker_All_DV config iMarker
      \<and> DV_Value config 0 = 1 \<and> ParamDV config 0 0 = 1 \<and> ParamDV config 0 1 = 0 \<and> ParamDV config 0 2 = 0
      \<and> DV_Value config 1 = 1 \<and> ParamDV config 1 0 = 0 \<and> ParamDV config 1 1 = 1 \<and> ParamDV config 1 2 = 0"
  then have d: "iDim = 0 \<or> iDim = 1 \<or> iDim = 2" by linarith
  from h d show "VarCoord (Marker_vertex
          (SetDisplacement (SetDisplacement boundary config 0 ResetDef) config 1 False) iMarker ! iVertex) iDim
        = vec_of [1, 1, 0] iDim"
    by (auto simp: SetDisplacement_VarCoord SetDisplacement_length SetDisplacement_GetnDim
        Displacement_VarCoord_def vec_of_def Let_def)
  from h d show "VarCoord (Marker_vertex
          (SetDisplacement (SetDisplacement boundary config 0 ResetDef) config 1 True) iMarker ! iVertex) iDim
        = vec_of [0, 1, 0] iDim"
    by (auto simp: SetDisplacement_VarCoord SetDisplacement_length SetDisplacement_GetnDim
        Displacement_VarCoord_def vec_of_def Let_def)
qed

theorem SetDisplacement_accumulates_witness:
  "0 < nMarker_All displ_config \<and> 0 < length (Marker_vertex dv_boundary 0)
   \<and> 0 < GetnDim dv_boundary \<and> GetnDim dv_boundary \<le> 3 \<and> Marker_All_DV displ_config 0
   \<and> DV_Value displ_config 0 = 1 \<and> ParamDV displ_config 0 0 = 1 \<and> ParamDV displ_config 0 1 = 0
   \<and> ParamDV displ_config 0 2 = 0 \<and> DV_Value displ_config 1 = 1 \<and> ParamDV displ_config 1 0 = 0
   \<and> ParamDV displ_config 1 1 = 1 \<and> ParamDV displ_config 1 2 = 0
   \<and> VarCoord (Marker_vertex (SetDisplacement dv_boundary displ_config 0 False) 0 ! 0) 0 = 1
   \<and> VarCoord (Marker_vertex
        (SetDisplacement (SetDisplacement dv_boundary displ_config 0 False) displ_config 1 False)
        0 ! 0) 0 = 1
   \<and> VarCoord (Marker_vertex
        (SetDisplacement (SetDisplacement dv_boundary displ_config 0 False) displ_config 1 True)
        0 ! 0) 0 = 0"
  using SetDisplacement_accumulates [where iMarker = 0 and iVertex = 0 and iDim = 0 and iDV = 0
      and ResetDef = False and boundary = dv_boundary and config = displ_config]
  by (simp add: dv_boundary_def displ_config_def vec_of_def)

subsection \<open>Rotation design variables\<close>

lemma quarter_turn: "(90::real) * pi / 180 = pi / 2"
  by simp

lemma Rotation_line_shift:
  "iDV \<noteq> 0 \<Longrightarrow>
   Rotation_line (config\<lparr>ParamDV := (ParamDV config)(iDV := (ParamDV config iDV)
        (2 := ParamDV config iDV 2 + d, 5 := ParamDV config iDV 5 + d))\<rparr>) nDim iDV
     = Rotation_line config nDim iDV"
  by (simp add: Rotation_line_def)

lemma Reset_VarCoord_cong:
  "nMarker_All config' = nMarker_All config \<Longrightarrow>
   Reset_VarCoord config' boundary = Reset_VarCoord config boundary"
  by (simp add: Reset_VarCoord_def for_each_vertex_def)

lemma for_each_vertex_cong:
  "nMarker_All config' = nMarker_All config \<Longrightarrow>
   for_each_vertex config' body boundary = for_each_vertex config body boundary"
  by (simp add: for_each_vertex_def)

lemma SetRotation_cong:
  assumes "nMarker_All config' = nMarker_All config"
    and "\<And>iMarker Coord. Rotation_VarCoord config' (GetnDim boundary) iDV iMarker Coord
           = Rotation_VarCoord config (GetnDim boundary) iDV iMarker Coord"
  shows "SetRotation boundary config' iDV ResetDef = SetRotation boundary config iDV ResetDef"
  using assms
  by (simp add: SetRotation_def Let_def Reset_VarCoord_cong [of config' config]
      for_each_vertex_cong [of config' config])

lemma Rotation_VarCoord_shift:
  "iDV \<noteq> 0 \<Longrightarrow>
   Rotation_VarCoord (config\<lparr>ParamDV := (ParamDV config)(iDV := (ParamDV config iDV)
        (2 := ParamDV config iDV 2 + d, 5 := ParamDV config iDV 5 + d))\<rparr>) nDim iDV iMarker Coord
     = Rotation_VarCoord config nDim iDV iMarker Coord"
  unfolding Rotation_VarCoord_def Rotation_line_shift by simp

lemma Rotation_VarCoord_pair:
  "Rotation_VarCoord
     ((rot_config [[0, 0, 0, 0, 0, 0], [0, 0, 0, 0, 0, 1]])
        \<lparr>ParamDV := (ParamDV (rot_config [[0, 0, 0, 0, 0, 0], [0, 0, 0, 0, 0, 1]]))
           (1 := (ParamDV (rot_config [[0, 0, 0, 0, 0, 0], [0, 0, 0, 0, 0, 1]]) 1)(2 := - 1))\<rparr>)
     3 1 iMarker Coord
   = Rotation_VarCoord (rot_config [[0, 0, 0, 0, 0, 0], [0, 0, 0, 0, 0, 1]]) 3 1 iMarker Coord"
  by (simp add: Rotation_VarCoord_def Rotation_line_def Rotation_movement_def rot_config_def
      vec_of_def Let_def quarter_turn fun_eq_iff)

lemma Rotation_sensitive:
  "Rotation_VarCoord (rot_config [[0, 0, z0, 0, 0, 0], [0, 0, 0, 1, 0, 0]]) 3 1 0 (vec_of [1, 0, 0]) 1 = z0"
  by (simp add: Rotation_VarCoord_def Rotation_line_def Rotation_movement_def rot_config_def
      vec_of_def Let_def quarter_turn)

lemma Rotation_pair_value:
  "Rotation_VarCoord (rot_config [[0, 0, 0, 0, 0, 0], [0, 0, 0, 0, 0, 1]]) 3 1 0 (vec_of [1, 0, 0]) 1 = 1"
  by (simp add: Rotation_VarCoord_def Rotation_line_def Rotation_movement_def rot_config_def
      vec_of_def Let_def quarter_turn)

text \<open>
  C9. In 3D, for every design variable \<open>iDV\<close>, \<open>SetRotation\<close> takes the z-coordinate
  \<open>c\<close> of the point on the line of rotation from parameter 2 of design variable 0, while
  \<open>a\<close>, \<open>b\<close> and the direction \<open>(u, v, w)\<close> come from the parameters of \<open>iDV\<close>; parameter 2
  of \<open>iDV\<close> enters through \<open>w\<close> alone. So for \<open>iDV \<noteq> 0\<close> moving both the origin and the end
  point of the line of \<open>iDV\<close> along z by the same amount changes nothing, whereas the delta
  of design variable 1 follows parameter 2 of design variable 0 (a quarter turn about a
  line along x moves the vertex \<open>(1,0,0)\<close> by that parameter in y). And there is a pair of
  rotation configurations that differ only in the z-origin parameter of design variable 1
  (0 against -1) for which \<open>SetRotation\<close> produces identical results on every 3D boundary.
\<close>

theorem SetRotation_z_origin:
  "Rotation_line config 3 iDV =
     \<lparr>line_a = ParamDV config iDV 0, line_b = ParamDV config iDV 1, line_c = ParamDV config 0 2,
      line_u = ParamDV config iDV 3 - ParamDV config iDV 0,
      line_v = ParamDV config iDV 4 - ParamDV config iDV 1,
      line_w = ParamDV config iDV 5 - ParamDV config iDV 2\<rparr>
   \<and> (iDV \<noteq> 0 \<longrightarrow>
        SetRotation boundary
          (config\<lparr>ParamDV := (ParamDV config)(iDV := (ParamDV config iDV)
             (2 := ParamDV config iDV 2 + d, 5 := ParamDV config iDV 5 + d))\<rparr>) iDV ResetDef
        = SetRotation boundary config iDV ResetDef)
   \<and> Rotation_VarCoord (rot_config [[0, 0, z0, 0, 0, 0], [0, 0, 0, 1, 0, 0]]) 3 1 0 (vec_of [1, 0, 0]) 1
       = z0
   \<and> ParamDV (rot_config [[0, 0, 0, 0, 0, 0], [0, 0, 0, 0, 0, 1]]) 1 2 \<noteq> - 1
   \<and> (GetnDim boundary = 3 \<longrightarrow>
        SetRotation boundary
          ((rot_config [[0, 0, 0, 0, 0, 0], [0, 0, 0, 0, 0, 1]])
             \<lparr>ParamDV := (ParamDV (rot_config [[0, 0, 0, 0, 0, 0], [0, 0, 0, 0, 0, 1]]))
                (1 := (ParamDV (rot_config [[0, 0, 0, 0, 0, 0], [0, 0, 0, 0, 0, 1]]) 1)(2 := - 1))\<rparr>)
          1 ResetDef
        = SetRotation boundary (rot_config [[0, 0, 0, 0, 0, 0], [0, 0, 0, 0, 0, 1]]) 1 ResetDef)"
proof (intro conjI impI)
  show "Rotation_line config 3 iDV =
     \<lparr>line_a = ParamDV config iDV 0, line_b = ParamDV config iDV 1, line_c = ParamDV config 0 2,
      line_u = ParamDV config iDV 3 - ParamDV config iDV 0,
      line_v = ParamDV config iDV 4 - ParamDV config iDV 1,
      line_w = ParamDV config iDV 5 - ParamDV config iDV 2\<rparr>"
    by (simp add: Rotation_line_def)
next
  assume "iDV \<noteq> 0"
  then show "SetRotation boundary
          (config\<lparr>ParamDV := (ParamDV config)(iDV := (ParamDV config iDV)
             (2 := ParamDV config iDV 2 + d, 5 := ParamDV config iDV 5 + d))\<rparr>) iDV ResetDef
        = SetRotation boundary config iDV ResetDef"
    by (intro SetRotation_cong Rotation_VarCoord_shift) simp
next
  show "Rotation_VarCoord (rot_config [[0, 0, z0, 0, 0, 0], [0, 0, 0, 1, 0, 0]]) 3 1 0 (vec_of [1, 0, 0]) 1
       = z0"
    by (rule Rotation_sensitive)
next
  show "ParamDV (rot_config [[0, 0, 0, 0, 0, 0], [0, 0, 0, 0, 0, 1]]) 1 2 \<noteq> - 1"
    by (simp add: rot_config_def vec_of_def)
next
  assume dim: "GetnDim boundary = 3"
  show "SetRotation boundary
          ((rot_config [[0, 0, 0, 0, 0, 0], [0, 0, 0, 0, 0, 1]])
             \<lparr>ParamDV := (ParamDV (rot_config [[0, 0, 0, 0, 0, 0], [0, 0, 0, 0, 0, 1]]))
                (1 := (ParamDV (rot_config [[0, 0, 0, 0, 0, 0], [0, 0, 0, 0, 0, 1]]) 1)(2 := - 1))\<rparr>)
          1 ResetDef
        = SetRotation boundary (rot_config [[0, 0, 0, 0, 0, 0], [0, 0, 0, 0, 0, 1]]) 1 ResetDef"
  proof (rule SetRotation_cong)
    show "nMarker_All ((rot_config [[0, 0, 0, 0, 0, 0], [0, 0, 0, 0, 0, 1]])
             \<lparr>ParamDV := (ParamDV (rot_config [[0, 0, 0, 0, 0, 0], [0, 0, 0, 0, 0, 1]]))
                (1 := (ParamDV (rot_config [[0, 0, 0, 0, 0, 0], [0, 0, 0, 0, 0, 1]]) 1)(2 := - 1))\<rparr>)
        = nMarker_All (rot_config [[0, 0, 0, 0, 0, 0], [0, 0, 0, 0, 0, 1]])"
      by simp
  next
    fix iMarker Coord
    show "Rotation_VarCoord
        ((rot_config [[0, 0, 0, 0, 0, 0], [0, 0, 0, 0, 0, 1]])
           \<lparr>ParamDV := (ParamDV (rot_config [[0, 0, 0, 0, 0, 0], [0, 0, 0, 0, 0, 1]]))
              (1 := (ParamDV (rot_config [[0, 0, 0, 0, 0, 0], [0, 0, 0, 0, 0, 1]]) 1)(2 := - 1))\<rparr>)
        (GetnDim boundary) 1 iMarker Coord
      = Rotation_VarCoord (rot_config [[0, 0, 0, 0, 0, 0], [0, 0, 0, 0, 0, 1]])
          (GetnDim boundary) 1 iMarker Coord"
      unfolding dim by (rule Rotation_VarCoord_pair)
  qed
qed

theorem SetRotation_z_origin_witness:
  "(1::nat) \<noteq> 0 \<and> GetnDim dv_boundary = 3
   \<and> SetRotation dv_boundary
        ((rot_config [[0, 0, 2, 0, 0, 0], [0, 0, 0, 1, 0, 0]])
           \<lparr>ParamDV := (ParamDV (rot_config [[0, 0, 2, 0, 0, 0], [0, 0, 0, 1, 0, 0]]))
              (1 := (ParamDV (rot_config [[0, 0, 2, 0, 0, 0], [0, 0, 0, 1, 0, 0]]) 1)
                 (2 := ParamDV (rot_config [[0, 0, 2, 0, 0, 0], [0, 0, 0, 1, 0, 0]]) 1 2 + 7,
                  5 := ParamDV (rot_config [[0, 0, 2, 0, 0, 0], [0, 0, 0, 1, 0, 0]]) 1 5 + 7))\<rparr>)
        1 False
      = SetRotation dv_boundary (rot_config [[0, 0, 2, 0, 0, 0], [0, 0, 0, 1, 0, 0]]) 1 False
   \<and> SetRotation dv_boundary
        ((rot_config [[0, 0, 0, 0, 0, 0], [0, 0, 0, 0, 0, 1]])
           \<lparr>ParamDV := (ParamDV (rot_config [[0, 0, 0, 0, 0, 0], [0, 0, 0, 0, 0, 1]]))
              (1 := (ParamDV (rot_config [[0, 0, 0, 0, 0, 0], [0, 0, 0, 0, 0, 1]]) 1)(2 := - 1))\<rparr>)
        1 False
      = SetRotation dv_boundary (rot_config [[0, 0, 0, 0, 0, 0], [0, 0, 0, 0, 0, 1]]) 1 False
   \<and> VarCoord (Marker_vertex
        (SetRotation dv_boundary (rot_config [[0, 0, 2, 0, 0, 0], [0, 0, 0, 1, 0, 0]]) 1 True) 0 ! 0) 1 = 2"
proof -
  have one: "(1::nat) \<noteq> 0" by simp
  have dim: "GetnDim dv_boundary = 3" by (simp add: dv_boundary_def)
  have val: "VarCoord (Marker_vertex
        (SetRotation dv_boundary (rot_config [[0, 0, 2, 0, 0, 0], [0, 0, 0, 1, 0, 0]]) 1 True) 0 ! 0) 1 = 2"
    by (simp add: SetRotation_def Reset_VarCoord_def for_each_vertex_def AddVarCoord_def
        SetVarCoord_def zero_vec_def dv_boundary_def Rotation_VarCoord_def Rotation_line_def
        Rotation_movement_def rot_config_def vec_of_def Let_def quarter_turn)
  from SetRotation_z_origin [where iDV = 1 and boundary = dv_boundary and d = 7
      and ResetDef = False and config = "rot_config [[0, 0, 2, 0, 0, 0], [0, 0, 0, 1, 0, 0]]"]
    one dim val
  show ?thesis by blast
qed

subsection \<open>Generators that take a single design variable\<close>

lemma for_each_vertex_nDV: "for_each_vertex (config\<lparr>nDV := n\<rparr>) body boundary = for_each_vertex config body boundary"
  by (simp add: for_each_vertex_def)

text \<open>
  C3 (amended). When the number of design variables configured is not 1, each of
  \<open>SetNACA_4Digits\<close>, \<open>SetParabolic\<close> and \<open>SetObstacle\<close> writes the diagnostic to the
  console, extracts one character from the standard input, and then returns to its caller
  with the boundary deformed exactly as with a single design variable (from the parameters
  of design variable 0): it does not terminate the process.
\<close>

theorem single_DV_generators_continue:
  "nDV config \<noteq> 1 \<longrightarrow>
     (\<exists>deformed.
        SetNACA_4Digits io boundary (config\<lparr>nDV := 1\<rparr>) = Returned io deformed
        \<and> SetNACA_4Digits io boundary config
            = Returned (io\<lparr>cout := cout io @ [''This kind of design variable is not prepared for multiple deformations.''],
                           cin := tl (cin io)\<rparr>) deformed)
   \<and> (\<exists>deformed.
        SetParabolic io boundary (config\<lparr>nDV := 1\<rparr>) = Returned io deformed
        \<and> SetParabolic io boundary config
            = Returned (io\<lparr>cout := cout io @ [''This kind of design variable is not prepared for multiple deformations.''],
                           cin := tl (cin io)\<rparr>) deformed)
   \<and> (\<exists>deformed.
        SetObstacle io boundary (config\<lparr>nDV := 1\<rparr>) = Returned io deformed
        \<and> SetObstacle io boundary config
            = Returned (io\<lparr>cout := cout io @ [''This kind of design variable is not prepared for multiple deformations.''],
                           cin := tl (cin io)\<rparr>) deformed)"
  by (simp add: SetNACA_4Digits_def SetParabolic_def SetObstacle_def single_DV_check_def
      for_each_vertex_nDV NACA_4Digits_VarCoord_def Parabolic_VarCoord_def Obstacle_VarCoord_def)

text \<open>
  C3 as stated fails: with two design variables configured, \<open>SetObstacle\<close> does not
  terminate the process.
\<close>

theorem single_DV_generators_terminate_counterexample:
  "\<not> (\<forall>io boundary config. nDV config \<noteq> 1 \<longrightarrow>
        (\<exists>io'. SetObstacle io boundary config = Terminated io'))"
proof
  assume "\<forall>io boundary config. nDV config \<noteq> 1 \<longrightarrow>
        (\<exists>io'. SetObstacle io boundary config = Terminated io')"
  then have "nDV obstacle_config \<noteq> 1 \<longrightarrow>
      (\<exists>io'. SetObstacle \<lparr>cout = [], cin = ''y''\<rparr> dv_boundary obstacle_config = Terminated io')"
    by blast
  then show False by (simp add: obstacle_config_def SetObstacle_def)
qed

lemma obstacle_value:
  "SetObstacle \<lparr>cout = [], cin = ''y''\<rparr> dv_boundary obstacle_config
     = Returned \<lparr>cout = [''This kind of design variable is not prepared for multiple deformations.''], cin = []\<rparr>
        (dv_boundary\<lparr>Marker_vertex := (\<lambda>iMarker. if iMarker = 0
         then [\<lparr>VarCoord = vec_of [0, 27 / 32, 0], CartCoord = vec_of [1, 0, 0], Normal = vec_of [0, 1, 0]\<rparr>]
         else [])\<rparr>)"
  by (auto simp add: SetObstacle_def single_DV_check_def obstacle_config_def dv_boundary_def
      for_each_vertex_def SetVarCoord_def Obstacle_VarCoord_def vec_of_def fun_eq_iff Let_def less_Suc_eq)

theorem single_DV_generators_continue_witness:
  "nDV obstacle_config \<noteq> 1
   \<and> SetObstacle \<lparr>cout = [], cin = ''y''\<rparr> dv_boundary (obstacle_config\<lparr>nDV := 1\<rparr>)
       = Returned \<lparr>cout = [], cin = ''y''\<rparr>
          (dv_boundary\<lparr>Marker_vertex := (\<lambda>iMarker. if iMarker = 0
             then [\<lparr>VarCoord = vec_of [0, 27 / 32, 0], CartCoord = vec_of [1, 0, 0],
                    Normal = vec_of [0, 1, 0]\<rparr>]
             else [])\<rparr>)
   \<and> SetObstacle \<lparr>cout = [], cin = ''y''\<rparr> dv_boundary obstacle_config
       = Returned \<lparr>cout = [''This kind of design variable is not prepared for multiple deformations.''],
                   cin = []\<rparr>
          (dv_boundary\<lparr>Marker_vertex := (\<lambda>iMarker. if iMarker = 0
             then [\<lparr>VarCoord = vec_of [0, 27 / 32, 0], CartCoord = vec_of [1, 0, 0],
                    Normal = vec_of [0, 1, 0]\<rparr>]
             else [])\<rparr>)"
proof -
  have n: "nDV obstacle_config \<noteq> 1" by (simp add: obstacle_config_def)
  from single_DV_generators_continue
    [where config = obstacle_config and boundary = dv_boundary and io = "\<lparr>cout = [], cin = ''y''\<rparr>"] n
  obtain deformed where
    one: "SetObstacle \<lparr>cout = [], cin = ''y''\<rparr> dv_boundary (obstacle_config\<lparr>nDV := 1\<rparr>)
        = Returned \<lparr>cout = [], cin = ''y''\<rparr> deformed"
    and two: "SetObstacle \<lparr>cout = [], cin = ''y''\<rparr> dv_boundary obstacle_config
        = Returned (\<lparr>cout = [], cin = ''y''\<rparr>\<lparr>cout := cout \<lparr>cout = [], cin = ''y''\<rparr>
              @ [''This kind of design variable is not prepared for multiple deformations.''],
            cin := tl (cin \<lparr>cout = [], cin = ''y''\<rparr>)\<rparr>) deformed"
    by blast
  from two obstacle_value have "deformed = dv_boundary\<lparr>Marker_vertex := (\<lambda>iMarker. if iMarker = 0
             then [\<lparr>VarCoord = vec_of [0, 27 / 32, 0], CartCoord = vec_of [1, 0, 0],
                    Normal = vec_of [0, 1, 0]\<rparr>]
             else [])\<rparr>"
    by simp
  with n one two show ?thesis by simp
qed

subsection \<open>Rigid translation\<close>









subsection \<open>Bernstein basis at the ends of the interval\<close>

lemma GetBernstein_first_boundary:
  "0 \<le> val_n \<Longrightarrow> GetBernstein val_n 0 0 = 1 \<and> GetBernstein val_n 0 1 = 0"
  by (simp add: GetBernstein_def)

lemma GetBernstein_last_boundary:
  "1 \<le> val_n \<Longrightarrow> GetBernstein val_n val_n 1 = 1 \<and> GetBernstein val_n val_n 0 = 0"
  by (simp add: GetBernstein_def)

text \<open>
  C4 (what the code does instead). \<open>GetBernstein\<close> tests \<^verbatim>\<open>val_i == 0\<close> before
  \<^verbatim>\<open>val_i == val_n\<close>; for the degree 0 both hold, and at \<open>t = 1\<close> the first branch returns
  \<open>B\<^sub>0\<^sup>0(1) = 0\<close>. So for \<open>n = 0\<close> the boundary case \<open>B\<^sub>n\<^sup>n(1) = 1\<close> fails and the basis sums to 0
  at \<open>t = 1\<close>, not to 1. The value is reached from boxes of degree 1: the first derivative
  of \<open>B\<^sub>1\<^sup>1(t) = t\<close> at \<open>t = 1\<close> is computed as \<open>B\<^sub>0\<^sup>0(1) - B\<^sub>1\<^sup>0(1) = 0\<close>.
\<close>

theorem GetBernstein_degree_zero_at_one:
  "GetBernstein 0 0 1 = 0
   \<and> sum_upto 0 (\<lambda>i. GetBernstein 0 (int i) 1) = 0
   \<and> GetBernsteinDerivative 1 1 1 1 = 0"
  by (simp add: GetBernstein_def sum_upto_def)


subsection \<open>Hessian of the squared distance\<close>













subsection \<open>Point inversion\<close>
































end
